theory Spec2Isabelle
  imports Complex_Main
begin

section \<open>JavaScript values used by the decision and pricing engine\<close>

text \<open>
  A \<open>bigint\<close> is an unbounded integer and is modelled by \<open>int\<close>.  Division of
  bigints truncates toward zero; dividing by \<open>0n\<close> raises a RangeError, so every use of
  \<open>bigint_div\<close> below sits behind the guard the source has (or behind a constant
  divisor), and where the source has no guard the model returns the error.
\<close>

definition bigint_div :: "int \<Rightarrow> int \<Rightarrow> int" where
  "bigint_div a b = sgn a * sgn b * (\<bar>a\<bar> div \<bar>b\<bar>)"

text \<open>
  A \<open>number\<close> is an IEEE double.  The three non-finite values are constructors of
  their own; a finite double is represented by the rational it denotes.  \<open>Math.min\<close>,
  \<open>Math.max\<close>, comparisons and \<open>Number.isFinite\<close> are exact on doubles.  Arithmetic
  on \<open>Num\<close> is written with exact rationals: it agrees with the double result whenever
  that result is exact (in particular on integers of magnitude up to \<open>2^53\<close>), and the
  one place where the source adds two integers that can exceed that range rounds
  explicitly with \<open>double_of_int\<close>.
\<close>

datatype number = Num rat | PosInfinity | NegInfinity | NaN

fun isFinite :: "number \<Rightarrow> bool" where
  "isFinite (Num r) = True"
| "isFinite PosInfinity = False"
| "isFinite NegInfinity = False"
| "isFinite NaN = False"

fun Math_min :: "number \<Rightarrow> number \<Rightarrow> number" where
  "Math_min NaN y = NaN"
| "Math_min x NaN = NaN"
| "Math_min NegInfinity y = NegInfinity"
| "Math_min x NegInfinity = NegInfinity"
| "Math_min PosInfinity y = y"
| "Math_min x PosInfinity = x"
| "Math_min (Num a) (Num b) = Num (min a b)"

fun Math_max :: "number \<Rightarrow> number \<Rightarrow> number" where
  "Math_max NaN y = NaN"
| "Math_max x NaN = NaN"
| "Math_max PosInfinity y = PosInfinity"
| "Math_max x PosInfinity = PosInfinity"
| "Math_max NegInfinity y = y"
| "Math_max x NegInfinity = x"
| "Math_max (Num a) (Num b) = Num (max a b)"

fun number_minus :: "number \<Rightarrow> number \<Rightarrow> number" where
  "number_minus NaN y = NaN"
| "number_minus x NaN = NaN"
| "number_minus PosInfinity PosInfinity = NaN"
| "number_minus NegInfinity NegInfinity = NaN"
| "number_minus PosInfinity y = PosInfinity"
| "number_minus NegInfinity y = NegInfinity"
| "number_minus (Num a) PosInfinity = NegInfinity"
| "number_minus (Num a) NegInfinity = PosInfinity"
| "number_minus (Num a) (Num b) = Num (a - b)"

definition MAX_SAFE_INTEGER :: int where
  "MAX_SAFE_INTEGER = 2 ^ 53 - 1"

definition MIN_SAFE_INTEGER :: int where
  "MIN_SAFE_INTEGER = - (2 ^ 53 - 1)"

text \<open>
  The double nearest to an integer (round to nearest, ties to even): below \<open>2^53\<close>
  every integer is a double; from there on doubles are spaced \<open>double_ulp\<close> apart.
  Overflow to \<open>Infinity\<close> (beyond about \<open>1.8e308\<close>) is not modelled.
\<close>

function double_ulp :: "nat \<Rightarrow> nat" where
  "double_ulp n = (if n < 2 ^ 53 then 1 else 2 * double_ulp (n div 2))"
  by pat_completeness auto
termination
  by (relation "measure id") auto

declare double_ulp.simps [simp del]

definition double_of_int :: "int \<Rightarrow> int" where
  "double_of_int n =
     (let a = nat \<bar>n\<bar>;
          u = double_ulp a;
          q = a div u;
          r = a mod u;
          q' = (if 2 * r < u then q
                else if 2 * r > u then q + 1
                else if even q then q else q + 1)
      in sgn n * int (q' * u))"

text \<open>
  \<open>BigInt(Math.floor((1 + x / 100) * 10000))\<close>, the conversion of a percentage into a
  basis-point multiplier used by the threshold-parity rule and by \<open>timeToProfit\<close>.
  \<open>Math.floor\<close> of a non-finite number is that number, and \<open>BigInt\<close> of a non-integer
  raises a RangeError.
\<close>

datatype js_error =
    ProfitBufferRequired
  | RangeError
  | InvalidAddress string string
  | MustBeNonNegative string
  | MustBeFinite string

fun basisPointMultiplier :: "number \<Rightarrow> js_error + int" where
  "basisPointMultiplier (Num x) = Inr \<lfloor>(1 + x / 100) * 10000\<rfloor>"
| "basisPointMultiplier PosInfinity = Inl RangeError"
| "basisPointMultiplier NegInfinity = Inl RangeError"
| "basisPointMultiplier NaN = Inl RangeError"

subsection \<open>Rendering numbers as text\<close>

definition digit_char :: "nat \<Rightarrow> char" where
  "digit_char d = ''0123456789'' ! d"

function show_nat :: "nat \<Rightarrow> string" where
  "show_nat n = (if n < 10 then [digit_char n] else show_nat (n div 10) @ [digit_char (n mod 10)])"
  by pat_completeness auto
termination
  by (relation "measure id") auto

declare show_nat.simps [simp del]

definition show_int :: "int \<Rightarrow> string" where
  "show_int i = (if i < 0 then ''-'' @ show_nat (nat (- i)) else show_nat (nat i))"

text \<open>
  \<open>parseFloat(formatEther(v)).toFixed(4)\<close>: the wei amount \<open>v\<close> as ether (\<open>v / 10^18\<close>)
  with four decimals, rounded half up on the exact quotient.  (The double nearest to the
  quotient can round the other way at an exact tie, and \<open>toFixed\<close> switches to
  exponential notation from \<open>1e21\<close>; neither occurs at the amounts used below.)
\<close>

definition toFixed4_ether :: "int \<Rightarrow> string" where
  "toFixed4_ether v =
     (let a = nat \<bar>v\<bar>;
          n = (a + 5 * 10 ^ 13) div 10 ^ 14;
          f = n mod 10000
      in (if v < 0 then ''-'' else '''')
         @ show_nat (n div 10000) @ ''.''
         @ [digit_char (f div 1000), digit_char (f div 100 mod 10),
            digit_char (f div 10 mod 10), digit_char (f mod 10)])"

text \<open>
  \<open>String(x)\<close> of a number, as template literals render it.  Integers print as their
  decimal digits; a non-integer prints its decimal expansion, cut after 17 fractional
  digits (JavaScript prints the shortest expansion that reads back as the same double,
  which is this one whenever the expansion is short).
\<close>

fun frac_digits :: "nat \<Rightarrow> rat \<Rightarrow> string" where
  "frac_digits 0 f = []"
| "frac_digits (Suc k) f =
     (if f = 0 then []
      else (let d = nat \<lfloor>f * 10\<rfloor> in digit_char d # frac_digits k (f * 10 - of_nat d)))"

fun number_text :: "number \<Rightarrow> string" where
  "number_text NaN = ''NaN''"
| "number_text PosInfinity = ''Infinity''"
| "number_text NegInfinity = ''-Infinity''"
| "number_text (Num r) =
     (let w = \<lfloor>\<bar>r\<bar>\<rfloor>; f = \<bar>r\<bar> - of_int w
      in (if r < 0 then ''-'' else '''') @ show_nat (nat w)
         @ (if f = 0 then '''' else ''.'' @ frac_digits 17 f))"

section \<open>Price reconstruction (services/PriceCalculator.ts)\<close>

text \<open>
  \<open>AuctionParameters\<close>.  \<open>auctionDuration\<close> is a whole number of seconds (it is
  produced by \<open>Number(auctionDuration)\<close> from a bigint and fed back to \<open>BigInt\<close>);
  \<open>auctionStartTime\<close> is the \<open>Date\<close>'s \<open>getTime()\<close>, in milliseconds.  The clock
  reading \<open>Date.now()\<close> is an explicit argument \<open>now\<close> (milliseconds).  Millisecond
  readings are integers far below \<open>2^53\<close>, where \<open>Math.floor(ms / 1000)\<close> is the
  integer floor division.
\<close>

record AuctionParameters =
  startPrice :: int
  minPrice :: int
  auctionDuration :: int
  auctionStartTime :: int

definition calculateCurrentPrice :: "int \<Rightarrow> AuctionParameters \<Rightarrow> int" where
  "calculateCurrentPrice now params =
     (let auctionStartMs = auctionStartTime params;
          timeElapsedMs = now - auctionStartMs;
          timeElapsedSeconds = timeElapsedMs div 1000
      in if timeElapsedSeconds \<le> 0 then startPrice params
         else if timeElapsedSeconds \<ge> auctionDuration params then minPrice params
         else
           (let priceRange = startPrice params - minPrice params;
                priceDecay = bigint_div (priceRange * timeElapsedSeconds) (auctionDuration params);
                currentPrice = startPrice params - priceDecay
            in if currentPrice < minPrice params then minPrice params
               else if currentPrice > startPrice params then startPrice params
               else currentPrice))"

definition timeUntilPrice :: "int \<Rightarrow> AuctionParameters \<Rightarrow> int \<Rightarrow> int" where
  "timeUntilPrice now params targetPrice =
     (if targetPrice \<ge> startPrice params then 0
      else if targetPrice \<le> minPrice params then
        (let auctionStartMs = auctionStartTime params;
             auctionEndMs = auctionStartMs + auctionDuration params * 1000;
             timeRemaining = max 0 (auctionEndMs - now)
         in timeRemaining div 1000)
      else
        (let priceRange = startPrice params - minPrice params;
             targetDrop = startPrice params - targetPrice;
             timeForTarget = bigint_div (targetDrop * auctionDuration params) priceRange;
             auctionStartMs = auctionStartTime params;
             targetTimeMs = auctionStartMs + timeForTarget * 1000;
             timeRemaining = max 0 (targetTimeMs - now)
         in timeRemaining div 1000))"

definition sampleAuction :: AuctionParameters where
  "sampleAuction =
     \<lparr>startPrice = 2000, minPrice = 1000, auctionDuration = 100, auctionStartTime = 0\<rparr>"

section \<open>Core types (core/types.ts)\<close>

text \<open>
  Optional fields are \<open>option\<close>s.  A \<open>Date\<close> is its millisecond time value.  Where two
  interfaces use the same field name, the later record carries a prefix:
  \<open>stateAuctionStartTime\<close> is \<open>AuctionState.auctionStartTime\<close>,
  \<open>contextLastPaidPrice\<close> is \<open>RuleContext.lastPaidPrice\<close>.  The untyped \<open>metadata\<close>
  bags of decisions and thoughts (display data only) are left out.
\<close>

record AuctionState =
  currentPrice :: int
  currentLeader :: string
  leaderAmount :: int
  leaderTimestamp :: int
  isAuctionPhase :: bool
  auctionMaxFactor :: number
  lastPaidPrice :: "int option"
  lastYeetRound :: "number option"
  stateAuctionStartTime :: "int option"

record BGTRewards =
  bgtPerSecond :: int
  totalAccumulated :: int
  timeElapsed :: number

record ProfitMetrics =
  returnPercentage :: number
  profitPercentage :: number
  netProfit :: int
  breakEvenTime :: number
  timeToProfit :: "number \<rightharpoonup> number"

record WalletInfo =
  address :: string
  isOurWallet :: bool

record RuleConfig =
  othersProfitThreshold :: number
  selfProfitThreshold :: number
  blacklistProfitThreshold :: number
  snipeBufferSeconds :: number
  blacklistedAddresses :: "string set"
  maxAuctionFactor :: number
  ourWallets :: "string set"
  maxYeetAmount :: string

record RuleContext =
  auction :: AuctionState
  bgtRewards :: BGTRewards
  profit :: ProfitMetrics
  wallet :: WalletInfo
  config :: RuleConfig
  contextLastPaidPrice :: "int option"

record YeetDecision =
  shouldYeet :: bool
  reason :: string
  priority :: int
  ruleName :: "string option"
  suggestedGasMultiplier :: "number option"

record RuleThoughts =
  currentValue :: string
  targetValue :: string
  progress :: number
  reasoning :: string

record RuleEvaluation =
  decision :: "YeetDecision option"
  thoughts :: RuleThoughts

text \<open>\<open>IRule\<close> (core/interfaces/IRule.ts): a name, a priority and the evaluation, which
  may throw.\<close>

record IRule =
  name :: string
  rulePriority :: int
  evaluate :: "RuleContext \<Rightarrow> js_error + RuleEvaluation"

section \<open>Context validation (utils/validation.ts)\<close>

definition isHexChar :: "char \<Rightarrow> bool" where
  "isHexChar c = (c \<in> set ''0123456789abcdefABCDEF'')"

text \<open>The regular expression \<open>/^0x[a-fA-F0-9]{40}$/\<close>.\<close>

definition isValidAddress :: "string \<Rightarrow> bool" where
  "isValidAddress a = (length a = 42 \<and> take 2 a = ''0x'' \<and> list_all isHexChar (drop 2 a))"

definition validateNonNegativeBigInt :: "int \<Rightarrow> string \<Rightarrow> js_error + unit" where
  "validateNonNegativeBigInt v fieldName =
     (if v < 0 then Inl (MustBeNonNegative fieldName) else Inr ())"

definition validateFiniteNumber :: "number \<Rightarrow> string \<Rightarrow> js_error + unit" where
  "validateFiniteNumber v fieldName =
     (if \<not> isFinite v then Inl (MustBeFinite fieldName) else Inr ())"

definition validateAddress :: "string \<Rightarrow> string \<Rightarrow> js_error + unit" where
  "validateAddress a fieldName =
     (if \<not> isValidAddress a then Inl (InvalidAddress fieldName a) else Inr ())"

text \<open>Sequencing of statements that may throw: the first error wins.\<close>

definition and_then :: "js_error + unit \<Rightarrow> js_error + 'a \<Rightarrow> js_error + 'a" where
  "and_then a b = (case a of Inl e \<Rightarrow> Inl e | Inr u \<Rightarrow> b)"

text \<open>
  \<open>validateRuleContext\<close>.  The \<open>typeof\<close> checks (objects present, booleans are
  booleans) hold by typing and have no branch here.
\<close>

definition validateRuleContext :: "RuleContext \<Rightarrow> js_error + unit" where
  "validateRuleContext context =
     and_then (validateAddress (currentLeader (auction context)) ''auction.currentLeader'')
    (and_then (validateNonNegativeBigInt (currentPrice (auction context)) ''auction.currentPrice'')
    (and_then (validateNonNegativeBigInt (leaderAmount (auction context)) ''auction.leaderAmount'')
    (and_then (validateNonNegativeBigInt (leaderTimestamp (auction context)) ''auction.leaderTimestamp'')
    (and_then (validateFiniteNumber (auctionMaxFactor (auction context)) ''auction.auctionMaxFactor'')
    (and_then (validateNonNegativeBigInt (bgtPerSecond (bgtRewards context)) ''bgtRewards.bgtPerSecond'')
    (and_then (validateNonNegativeBigInt (totalAccumulated (bgtRewards context)) ''bgtRewards.totalAccumulated'')
    (and_then (validateFiniteNumber (timeElapsed (bgtRewards context)) ''bgtRewards.timeElapsed'')
    (and_then (validateFiniteNumber (returnPercentage (profit context)) ''profit.returnPercentage'')
    (and_then (validateFiniteNumber (profitPercentage (profit context)) ''profit.profitPercentage'')
    (and_then (validateFiniteNumber (breakEvenTime (profit context)) ''profit.breakEvenTime'')
    (validateAddress (address (wallet context)) ''wallet.address'')))))))))))"

section \<open>Reward accrual and profitability (services/ProfitCalculator.ts)\<close>

text \<open>
  The two configuration values the calculator reads from \<open>config.strategy\<close>.  The
  schema makes \<open>expectedAuctionDuration\<close> an integer; \<open>profitThresholds\<close> is optional.
\<close>

record StrategyConfig =
  expectedAuctionDuration :: int
  profitThresholds :: "number list option"

definition BASIS_POINTS :: int where
  "BASIS_POINTS = 10000"

text \<open>\<open>safeToNumber\<close> clamps to the safe integers, where \<open>Number(value)\<close> is exact.\<close>

definition safeToNumber :: "int \<Rightarrow> int" where
  "safeToNumber v =
     (if v > MAX_SAFE_INTEGER then MAX_SAFE_INTEGER
      else if v < MIN_SAFE_INTEGER then MIN_SAFE_INTEGER
      else v)"

definition safeDivideToNumber :: "int \<Rightarrow> int \<Rightarrow> number" where
  "safeDivideToNumber numerator denominator =
     (if denominator = 0
      then (if numerator > 0 then PosInfinity else if numerator < 0 then NegInfinity else Num 0)
      else Num (of_int (safeToNumber (bigint_div numerator denominator))))"

text \<open>
  \<open>calculateBGTRewards\<close>.  \<open>timeElapsed\<close> and \<open>auctionTime\<close> are integer-valued
  doubles; their sum is a double addition, hence \<open>double_of_int\<close>, and the sum is an
  integer, so \<open>BigInt\<close> accepts it.
\<close>

definition calculateBGTRewards :: "StrategyConfig \<Rightarrow> int \<Rightarrow> int \<Rightarrow> int \<Rightarrow> BGTRewards" where
  "calculateBGTRewards cfg bgtPerSecond' leaderTimestamp' currentTimestamp =
     (let timeElapsed' = safeToNumber (currentTimestamp - leaderTimestamp');
          auctionTime = min timeElapsed' (expectedAuctionDuration cfg);
          totalSeconds = double_of_int (timeElapsed' + auctionTime);
          totalAccumulated' = bgtPerSecond' * totalSeconds
      in \<lparr>bgtPerSecond = bgtPerSecond',
          totalAccumulated = totalAccumulated',
          timeElapsed = Num (of_int timeElapsed')\<rparr>)"

definition timeToProfit_one :: "StrategyConfig \<Rightarrow> int \<Rightarrow> int \<Rightarrow> number \<Rightarrow> js_error + number" where
  "timeToProfit_one cfg currentPrice' bgtPerSecond' targetProfitPercentage =
     (if bgtPerSecond' = 0 then Inr PosInfinity
      else if currentPrice' = 0 then Inr (Num 0)
      else
        (case basisPointMultiplier targetProfitPercentage of
           Inl e \<Rightarrow> Inl e
         | Inr requiredMultiplier \<Rightarrow>
             (let requiredBGT = bigint_div (currentPrice' * requiredMultiplier) BASIS_POINTS;
                  timeRequired = safeDivideToNumber requiredBGT bgtPerSecond';
                  adjustedTime = number_minus timeRequired (Num (of_int (expectedAuctionDuration cfg)))
              in Inr (Math_max (Num 0) adjustedTime))))"

text \<open>The loop \<open>for (const threshold of thresholds) timeToProfit[threshold] = ...\<close>.\<close>

fun timeToProfit_loop ::
  "StrategyConfig \<Rightarrow> int \<Rightarrow> int \<Rightarrow> number list \<Rightarrow> (number \<rightharpoonup> number)
   \<Rightarrow> js_error + (number \<rightharpoonup> number)" where
  "timeToProfit_loop cfg p r [] m = Inr m"
| "timeToProfit_loop cfg p r (threshold # rest) m =
     (case timeToProfit_one cfg p r threshold of
        Inl e \<Rightarrow> Inl e
      | Inr t \<Rightarrow> timeToProfit_loop cfg p r rest (m(threshold \<mapsto> t)))"

definition calculateProfitMetrics :: "StrategyConfig \<Rightarrow> int \<Rightarrow> BGTRewards \<Rightarrow> js_error + ProfitMetrics" where
  "calculateProfitMetrics cfg currentPrice' rewards =
     (let totalAccumulated' = totalAccumulated rewards;
          netProfit' = totalAccumulated' - currentPrice';
          returnPercentage' =
            (if currentPrice' > 0
             then Num (of_int (safeToNumber (bigint_div (totalAccumulated' * BASIS_POINTS) currentPrice')) / 100)
             else Num 0);
          profitPercentage' =
            (if currentPrice' > 0
             then Num (of_int (safeToNumber (bigint_div (netProfit' * BASIS_POINTS) currentPrice')) / 100)
             else Num 0);
          breakEvenTime' =
            (if bgtPerSecond rewards > 0
             then safeDivideToNumber currentPrice' (bgtPerSecond rewards)
             else PosInfinity);
          thresholds =
            (case profitThresholds cfg of
               Some ts \<Rightarrow> ts
             | None \<Rightarrow> [Num 0, Num 10, Num 20, Num 40, Num 60])
      in case timeToProfit_loop cfg currentPrice' (bgtPerSecond rewards) thresholds Map.empty of
           Inl e \<Rightarrow> Inl e
         | Inr timeToProfit' \<Rightarrow>
             Inr \<lparr>returnPercentage = returnPercentage',
                  profitPercentage = profitPercentage',
                  netProfit = netProfit',
                  breakEvenTime = breakEvenTime',
                  timeToProfit = timeToProfit'\<rparr>)"

section \<open>The threshold-parity rule (rules/BGTEqualsCurrentPriceRule.ts)\<close>

definition RULE_PRIORITIES_BGT_EQUALS_PRICE :: int where
  "RULE_PRIORITIES_BGT_EQUALS_PRICE = 90"

record BGTEqualsCurrentPriceRule =
  profitBuffer :: number

text \<open>
  The constructor.  Its argument is \<open>None\<close> when the caller passes \<open>undefined\<close>.
\<close>

definition BGTEqualsCurrentPriceRule_new :: "number option \<Rightarrow> js_error + BGTEqualsCurrentPriceRule" where
  "BGTEqualsCurrentPriceRule_new arg =
     (case arg of
        None \<Rightarrow> Inl ProfitBufferRequired
      | Some b \<Rightarrow> Inr \<lparr>profitBuffer = Math_max (Num 0) (Math_min (Num 100) b)\<rparr>)"

text \<open>
  \<open>evaluate\<close>.  \<open>Number(bigint)\<close> is taken as exact (amounts below \<open>2^53\<close>; above,
  \<open>Math.min(100, _)\<close> gives 100 either way), and \<open>toFixed(0)\<close> of the whole number of
  seconds is its decimal digits.
\<close>

definition BGTEqualsCurrentPriceRule_evaluate ::
  "BGTEqualsCurrentPriceRule \<Rightarrow> RuleContext \<Rightarrow> js_error + RuleEvaluation" where
  "BGTEqualsCurrentPriceRule_evaluate rule context =
     and_then (validateRuleContext context)
       (case basisPointMultiplier (profitBuffer rule) of
          Inl e \<Rightarrow> Inl e
        | Inr multiplier \<Rightarrow>
            (let price = currentPrice (auction context);
                 total = totalAccumulated (bgtRewards context);
                 rate = bgtPerSecond (bgtRewards context);
                 requiredBGT = bigint_div (price * multiplier) 10000;
                 bgtFormatted = toFixed4_ether total;
                 requiredFormatted = toFixed4_ether requiredBGT
             in if price > 0 \<and> requiredBGT = 0 then Inl RangeError
                else
                  (let progress' =
                         (if price > 0
                          then Math_min (Num 100) (Num (of_int (bigint_div (total * 100) requiredBGT)))
                          else Num 0);
                       bgtNeeded = (if requiredBGT > total then requiredBGT - total else 0)
                   in if total \<ge> requiredBGT then
                        Inr \<lparr>decision = Some
                               \<lparr>shouldYeet = True,
                                reason = ''BGT earnings ('' @ bgtFormatted @ '') >= required BGT (''
                                    @ requiredFormatted @ '') ['' @ number_text (profitBuffer rule)
                                    @ ''% buffer]'',
                                priority = RULE_PRIORITIES_BGT_EQUALS_PRICE,
                                ruleName = Some ''BGTEqualsCurrentPrice'',
                                suggestedGasMultiplier = Some (Num (3 / 2))\<rparr>,
                             thoughts =
                               \<lparr>currentValue = ''BGT: '' @ bgtFormatted @ '' BERA'',
                                targetValue = ''Need: '' @ requiredFormatted @ '' BERA (price + ''
                                    @ number_text (profitBuffer rule) @ ''% buffer)'',
                                progress = Num 100,
                                reasoning = ''BGT accumulated exceeds price with buffer - ready to yeet!''\<rparr>\<rparr>
                      else
                        Inr \<lparr>decision = None,
                             thoughts =
                               \<lparr>currentValue = ''BGT: '' @ bgtFormatted @ '' BERA'',
                                targetValue = ''Need: '' @ requiredFormatted @ '' BERA'',
                                progress = progress',
                                reasoning =
                                  (if rate > 0
                                   then ''Accumulating BGT... '' @ show_int (bigint_div bgtNeeded rate)
                                        @ ''s until target (price + '' @ number_text (profitBuffer rule)
                                        @ ''% buffer)''
                                   else ''Waiting for BGT to reach price + ''
                                        @ number_text (profitBuffer rule) @ ''% buffer'')\<rparr>\<rparr>)))"

definition BGTEqualsCurrentPriceRule_rule :: "BGTEqualsCurrentPriceRule \<Rightarrow> IRule" where
  "BGTEqualsCurrentPriceRule_rule rule =
     \<lparr>name = ''BGTEqualsCurrentPrice'',
      rulePriority = RULE_PRIORITIES_BGT_EQUALS_PRICE,
      evaluate = BGTEqualsCurrentPriceRule_evaluate rule\<rparr>"

section \<open>The decision engine (services/DecisionEngine.ts)\<close>

text \<open>
  The engine keeps its rules in a \<open>Map\<close> from rule name to rule, iterated in insertion
  order: an association list, where \<open>set\<close> on a present key replaces the value in place
  and on a new key appends.
\<close>

record RuleOutcome =
  outcomeRuleName :: string
  outcomeDecision :: "YeetDecision option"
  triggered :: bool
  outcomeReason :: string
  outcomeThoughts :: RuleThoughts

record DetailedEvaluation =
  finalDecision :: YeetDecision
  allEvaluations :: "RuleOutcome list"

record DecisionEngine =
  rules :: "(string \<times> IRule) list"
  lastEvaluations :: "DetailedEvaluation option"

definition DecisionEngine_new :: DecisionEngine where
  "DecisionEngine_new = \<lparr>rules = [], lastEvaluations = None\<rparr>"

fun map_set :: "(string \<times> 'v) list \<Rightarrow> string \<Rightarrow> 'v \<Rightarrow> (string \<times> 'v) list" where
  "map_set [] k v = [(k, v)]"
| "map_set ((k', v') # m) k v = (if k' = k then (k, v) # m else (k', v') # map_set m k v)"

definition addRule :: "DecisionEngine \<Rightarrow> IRule \<Rightarrow> DecisionEngine" where
  "addRule engine rule = engine\<lparr>rules := map_set (rules engine) (name rule) rule\<rparr>"

definition removeRule :: "DecisionEngine \<Rightarrow> string \<Rightarrow> DecisionEngine" where
  "removeRule engine k = engine\<lparr>rules := filter (\<lambda>(k', r). k' \<noteq> k) (rules engine)\<rparr>"

definition getRules :: "DecisionEngine \<Rightarrow> IRule list" where
  "getRules engine = map snd (rules engine)"

text \<open>
  The loop over \<open>this.rules.values()\<close>: the decisions that are not \<open>null\<close>, and the
  record of every rule's outcome, both in iteration order.  A rule that throws ends the
  evaluation.
\<close>

fun evaluateRules :: "IRule list \<Rightarrow> RuleContext \<Rightarrow> js_error + (YeetDecision list \<times> RuleOutcome list)" where
  "evaluateRules [] context = Inr ([], [])"
| "evaluateRules (rule # rest) context =
     (case evaluate rule context of
        Inl e \<Rightarrow> Inl e
      | Inr evaluation \<Rightarrow>
          (case evaluateRules rest context of
             Inl e \<Rightarrow> Inl e
           | Inr (decisions, outcomes) \<Rightarrow>
               Inr ((case decision evaluation of None \<Rightarrow> decisions | Some d \<Rightarrow> d # decisions),
                    \<lparr>outcomeRuleName = name rule,
                     outcomeDecision = decision evaluation,
                     triggered = (decision evaluation \<noteq> None),
                     outcomeReason =
                       (case decision evaluation of
                          Some d \<Rightarrow> reason d
                        | None \<Rightarrow> reasoning (thoughts evaluation)),
                     outcomeThoughts = thoughts evaluation\<rparr> # outcomes)))"

text \<open>
  \<open>decisions.sort((a, b) => b.priority - a.priority)\<close>: \<open>Array.prototype.sort\<close> is
  stable, so this is the stable sort by descending priority.
\<close>

definition sortByPriority :: "YeetDecision list \<Rightarrow> YeetDecision list" where
  "sortByPriority decisions = sort_key (\<lambda>d. - priority d) decisions"

definition chooseDecision :: "YeetDecision list \<Rightarrow> YeetDecision" where
  "chooseDecision decisions =
     (if length decisions = 0 then
        \<lparr>shouldYeet = False, reason = ''No rules triggered'', priority = 0,
         ruleName = None, suggestedGasMultiplier = None\<rparr>
      else
        (let sorted = sortByPriority decisions
         in case find (\<lambda>d. \<not> shouldYeet d) sorted of
              Some blockingDecision \<Rightarrow> blockingDecision
            | None \<Rightarrow> hd sorted))"

definition DecisionEngine_evaluate ::
  "DecisionEngine \<Rightarrow> RuleContext \<Rightarrow> js_error + (YeetDecision \<times> DecisionEngine)" where
  "DecisionEngine_evaluate engine context =
     (case evaluateRules (map snd (rules engine)) context of
        Inl e \<Rightarrow> Inl e
      | Inr (decisions, outcomes) \<Rightarrow>
          (let final = chooseDecision decisions
           in Inr (final,
                   engine\<lparr>lastEvaluations :=
                     Some \<lparr>finalDecision = final, allEvaluations = outcomes\<rparr>\<rparr>)))"

section \<open>Serialized execution (bot/BotRunner.ts, executeYeet)\<close>

text \<open>
  \<open>executeYeet\<close> runs on JavaScript's single thread; what interleaves are the
  synchronous segments between awaits.  \<open>yeetMutex\<close> is a chain of promises: each call
  appends a callback with \<open>this.yeetMutex.then(...)\<close>, and a callback is started only
  once the promise before it in the chain is settled, which happens when the callback
  before it has returned, either at once (superseded) or when its
  \<open>executeYeetInternal\<close> has finished (that function catches every error, so the chain
  never rejects).  The model keeps the chain as the list of requests with their state
  and has three kinds of step: a call of \<open>executeYeet\<close> up to its first await, the start
  of a chained callback, and the completion of a running \<open>executeYeetInternal\<close>.
\<close>

datatype RequestState = Waiting | Executing | Executed | Superseded

record YeetRequest =
  lockId :: nat
  requested :: YeetDecision
  requestState :: RequestState

record BotRunner =
  yeetLockCount :: nat
  yeetMutex :: "YeetRequest list"

definition BotRunner_new :: BotRunner where
  "BotRunner_new = \<lparr>yeetLockCount = 0, yeetMutex = []\<rparr>"

datatype Step = ExecuteYeet YeetDecision | StartCallback nat | FinishInternal nat

definition settled :: "YeetRequest \<Rightarrow> bool" where
  "settled r = (requestState r = Executed \<or> requestState r = Superseded)"

fun step :: "Step \<Rightarrow> BotRunner \<Rightarrow> BotRunner option" where
  "step (ExecuteYeet d) s =
     (let lockId' = yeetLockCount s + 1
      in Some (s\<lparr>yeetLockCount := lockId',
                 yeetMutex := yeetMutex s
                   @ [\<lparr>lockId = lockId', requested = d, requestState = Waiting\<rparr>]\<rparr>))"
| "step (StartCallback k) s =
     (if k < length (yeetMutex s) \<and> requestState (yeetMutex s ! k) = Waiting
         \<and> (k = 0 \<or> settled (yeetMutex s ! (k - 1)))
      then Some (s\<lparr>yeetMutex := (yeetMutex s)
             [k := (yeetMutex s ! k)
                \<lparr>requestState :=
                   (if lockId (yeetMutex s ! k) \<noteq> yeetLockCount s then Superseded
                    else Executing)\<rparr>]\<rparr>)
      else None)"
| "step (FinishInternal k) s =
     (if k < length (yeetMutex s) \<and> requestState (yeetMutex s ! k) = Executing
      then Some (s\<lparr>yeetMutex := (yeetMutex s)[k := (yeetMutex s ! k)\<lparr>requestState := Executed\<rparr>]\<rparr>)
      else None)"

fun run :: "Step list \<Rightarrow> BotRunner \<Rightarrow> BotRunner option" where
  "run [] s = Some s"
| "run (e # es) s = (case step e s of None \<Rightarrow> None | Some s' \<Rightarrow> run es s')"

definition executing :: "BotRunner \<Rightarrow> YeetRequest list" where
  "executing s = filter (\<lambda>r. requestState r = Executing) (yeetMutex s)"

text \<open>
  The invariant of the promise chain used in the proofs: the tokens are \<open>1, 2, ...\<close>
  up to \<open>yeetLockCount\<close> in chain order, and a request that has left the waiting state
  has only settled requests before it.
\<close>

definition chainInvariant :: "BotRunner \<Rightarrow> bool" where
  "chainInvariant s =
     (map lockId (yeetMutex s) = [1..<Suc (yeetLockCount s)]
      \<and> (\<forall>j<length (yeetMutex s). requestState (yeetMutex s ! j) \<noteq> Waiting
            \<longrightarrow> (\<forall>i<j. settled (yeetMutex s ! i))))"

section \<open>Sample inputs\<close>

text \<open>
  The context of the repository's rule tests (price 10000, leader amount 10000, rate
  100), with well-formed addresses, as a function of the price and the accrued total;
  and rules that return a fixed decision, like the \<open>MockRule\<close> of the engine's tests.
\<close>

definition scenarioContext :: "int \<Rightarrow> int \<Rightarrow> RuleContext" where
  "scenarioContext price accrued =
     \<lparr>auction =
        \<lparr>currentPrice = price,
         currentLeader = ''0x1111111111111111111111111111111111111111'',
         leaderAmount = 10000,
         leaderTimestamp = 1000,
         isAuctionPhase = True,
         auctionMaxFactor = Num (6 / 5),
         lastPaidPrice = None,
         lastYeetRound = None,
         stateAuctionStartTime = None\<rparr>,
      bgtRewards = \<lparr>bgtPerSecond = 100, totalAccumulated = accrued, timeElapsed = Num 50\<rparr>,
      profit =
        \<lparr>returnPercentage = Num 50,
         profitPercentage = Num (- 50),
         netProfit = - 5000,
         breakEvenTime = Num 100,
         timeToProfit = Map.empty\<rparr>,
      wallet = \<lparr>address = ''0x2222222222222222222222222222222222222222'', isOurWallet = True\<rparr>,
      config =
        \<lparr>othersProfitThreshold = Num 2,
         selfProfitThreshold = Num 5,
         blacklistProfitThreshold = Num (- 5),
         snipeBufferSeconds = Num 3,
         blacklistedAddresses = {},
         maxAuctionFactor = Num (7 / 5),
         ourWallets = {''0x2222222222222222222222222222222222222222''},
         maxYeetAmount = ''20''\<rparr>,
      contextLastPaidPrice = None\<rparr>"

definition mockDecision :: "bool \<Rightarrow> string \<Rightarrow> int \<Rightarrow> YeetDecision" where
  "mockDecision act why p =
     \<lparr>shouldYeet = act, reason = why, priority = p, ruleName = None,
      suggestedGasMultiplier = None\<rparr>"

definition mockEvaluation :: "YeetDecision option \<Rightarrow> RuleEvaluation" where
  "mockEvaluation d =
     \<lparr>decision = d,
      thoughts = \<lparr>currentValue = [], targetValue = [], progress = Num 0, reasoning = []\<rparr>\<rparr>"

definition mockRule :: "string \<Rightarrow> int \<Rightarrow> YeetDecision option \<Rightarrow> IRule" where
  "mockRule n p d = \<lparr>name = n, rulePriority = p, evaluate = (\<lambda>context. Inr (mockEvaluation d))\<rparr>"

definition parityEngine :: DecisionEngine where
  "parityEngine =
     addRule DecisionEngine_new (BGTEqualsCurrentPriceRule_rule \<lparr>profitBuffer = Num 0\<rparr>)"

definition blockedEngine :: DecisionEngine where
  "blockedEngine =
     addRule (addRule DecisionEngine_new
       (mockRule ''Safety'' 70 (Some (mockDecision False ''Safety block'' 70))))
       (BGTEqualsCurrentPriceRule_rule \<lparr>profitBuffer = Num 0\<rparr>)"

definition tiedEngine :: DecisionEngine where
  "tiedEngine =
     addRule (addRule (addRule DecisionEngine_new
       (mockRule ''Low'' 50 (Some (mockDecision True ''low'' 50))))
       (mockRule ''First'' 80 (Some (mockDecision True ''first'' 80))))
       (mockRule ''Second'' 80 (Some (mockDecision True ''second'' 80)))"

definition sampleStrategy :: StrategyConfig where
  "sampleStrategy = \<lparr>expectedAuctionDuration = 60, profitThresholds = None\<rparr>"

definition sampleSteps :: "Step list" where
  "sampleSteps =
     [ExecuteYeet (mockDecision True ''first'' 90),
      ExecuteYeet (mockDecision True ''second'' 90),
      StartCallback 0,
      StartCallback 1,
      ExecuteYeet (mockDecision True ''third'' 90)]"

definition sampleState :: BotRunner where
  "sampleState =
     \<lparr>yeetLockCount = 3,
      yeetMutex =
        [\<lparr>lockId = 1, requested = mockDecision True ''first'' 90, requestState = Superseded\<rparr>,
         \<lparr>lockId = 2, requested = mockDecision True ''second'' 90, requestState = Executing\<rparr>,
         \<lparr>lockId = 3, requested = mockDecision True ''third'' 90, requestState = Waiting\<rparr>]\<rparr>"

section \<open>Properties of the price reconstruction\<close>

lemma bigint_div_nonneg: "0 \<le> a \<Longrightarrow> 0 < b \<Longrightarrow> bigint_div a b = a div b"
  by (cases "a = 0") (simp_all add: bigint_div_def)

lemma div_mult_le_int: "0 < D \<Longrightarrow> x div D * D \<le> (x::int)"
proof -
  assume D: "0 < D"
  have "x div D * D + x mod D = x" by simp
  moreover have "0 \<le> x mod D" using D by simp
  ultimately show ?thesis by linarith
qed

lemma div_less_int: "0 < D \<Longrightarrow> x < R * D \<Longrightarrow> x div D < (R::int)"
proof (rule ccontr)
  assume D: "0 < D" and x: "x < R * D" and n: "\<not> x div D < R"
  then have "R * D \<le> x div D * D" by (intro mult_right_mono) auto
  with div_mult_le_int [OF D, of x] x show False by linarith
qed

lemma inverse_bounds: 
  assumes "0 < D" "D \<le> R" "0 < t" "t < D"
  shows "0 < (R * t) div D" "(R * t) div D < R"
    "((R * t) div D * D) div R \<le> t" "t - 1 \<le> ((R * t) div D * D) div (R::int)"
proof -
  have R: "0 < R" using assms by simp
  have "D * 1 \<le> R * t" using assms by (intro mult_mono) auto
  then show "0 < (R * t) div D" using assms(1) by (simp add: pos_imp_zdiv_pos_iff)
  have "R * t < R * D" using assms R by simp
  then show "(R * t) div D < R" using assms(1) by (simp add: div_less_int)
  have le: "(R * t) div D * D \<le> R * t" using assms(1) by (rule div_mult_le_int)
  then have "((R * t) div D * D) div R \<le> (R * t) div R" by (rule zdiv_mono1) (rule R)
  then show "((R * t) div D * D) div R \<le> t" using R by simp
  have "(R * t) div D * D + (R * t) mod D = R * t" by simp
  moreover have "(R * t) mod D < D" using assms(1) by simp
  ultimately have "R * t - D < (R * t) div D * D" by linarith
  then have "R * (t - 1) \<le> (R * t) div D * D" using assms(2) by (simp add: algebra_simps)
  then have "(R * (t - 1)) div R \<le> ((R * t) div D * D) div R" by (rule zdiv_mono1) (rule R)
  then show "t - 1 \<le> ((R * t) div D * D) div R" using R by simp
qed

text \<open>
  C4 (clamping).  For start price \<open>\<ge>\<close> floor price \<open>\<ge> 0\<close> and a positive duration, the
  price reconstructed at any clock reading, before the decay start, during the decay or
  after its end, lies between the floor price and the start price.
\<close>

theorem calculateCurrentPrice_clamped:
  assumes "0 \<le> minPrice params" and "minPrice params \<le> startPrice params"
    and "0 < auctionDuration params"
  shows "minPrice params \<le> calculateCurrentPrice now params
         \<and> calculateCurrentPrice now params \<le> startPrice params"
  using assms by (simp add: calculateCurrentPrice_def Let_def)

theorem calculateCurrentPrice_clamped_witness:
  "(0 \<le> minPrice sampleAuction \<and> minPrice sampleAuction \<le> startPrice sampleAuction
    \<and> 0 < auctionDuration sampleAuction)
   \<and> (minPrice sampleAuction \<le> calculateCurrentPrice 30000 sampleAuction
      \<and> calculateCurrentPrice 30000 sampleAuction \<le> startPrice sampleAuction)
   \<and> calculateCurrentPrice 30000 sampleAuction = 1700"
proof (intro conjI)
  show "minPrice sampleAuction \<le> calculateCurrentPrice 30000 sampleAuction"
    and "calculateCurrentPrice 30000 sampleAuction \<le> startPrice sampleAuction"
    using calculateCurrentPrice_clamped [of sampleAuction 30000]
    by (simp_all add: sampleAuction_def)
qed (simp_all add: sampleAuction_def calculateCurrentPrice_def bigint_div_def Let_def)

text \<open>
  C5 (inverse consistency).  \<open>timeUntilPrice\<close> returns the time remaining from the
  clock reading it is given until the target price is reached, not the time remaining
  until the floor.  As stated (difference from \<open>duration - t\<close> at most one second) the
  claim fails: with start 2000, floor 1000 and duration 100, the price at elapsed time 20
  is 1800, and \<open>timeUntilPrice\<close> of 1800 is 0 when read at the same clock and 20 when
  read at the decay start, while \<open>duration - t = 80\<close>.
\<close>

theorem timeUntilPrice_inverse_counterexample:
  "\<not> \<bar>timeUntilPrice 20000 sampleAuction (calculateCurrentPrice 20000 sampleAuction)
        - (auctionDuration sampleAuction - 20)\<bar> \<le> 1
   \<and> \<not> \<bar>timeUntilPrice 0 sampleAuction (calculateCurrentPrice 20000 sampleAuction)
        - (auctionDuration sampleAuction - 20)\<bar> \<le> 1
   \<and> calculateCurrentPrice 20000 sampleAuction = 1800
   \<and> timeUntilPrice 20000 sampleAuction 1800 = 0
   \<and> timeUntilPrice 0 sampleAuction 1800 = 20"
  by (simp add: sampleAuction_def timeUntilPrice_def calculateCurrentPrice_def bigint_div_def Let_def)

text \<open>
  C5, amended.  For floor price \<open>\<ge> 0\<close>, a positive duration and a price range
  \<open>start - floor\<close> of at least the duration (so that the price moves by at least one unit
  per second), and for every elapsed time \<open>t\<close> in \<open>[0, duration]\<close>:
  \<open>timeUntilPrice\<close>, read with the clock at the decay start, of the price reconstructed
  at elapsed time \<open>t\<close> differs from \<open>t\<close> by at most one second.
\<close>

theorem timeUntilPrice_at_decay_start:
  assumes min0: "0 \<le> minPrice p"
    and range: "auctionDuration p \<le> startPrice p - minPrice p"
    and dur: "0 < auctionDuration p"
    and t0: "0 \<le> t" and tD: "t \<le> auctionDuration p"
    and clock: "(now - auctionStartTime p) div 1000 = t"
  shows "\<bar>timeUntilPrice (auctionStartTime p) p (calculateCurrentPrice now p) - t\<bar> \<le> 1"
proof -
  define D where "D = auctionDuration p"
  define R where "R = startPrice p - minPrice p"
  have R: "0 < R" "D \<le> R" and D: "0 < D" using range dur by (simp_all add: D_def R_def)
  consider "t = 0" | "t = D" | "0 < t" "t < D" using t0 tD unfolding D_def by atomize_elim arith
  then show ?thesis
  proof cases
    case 1
    then have "calculateCurrentPrice now p = startPrice p"
      using clock by (simp add: calculateCurrentPrice_def)
    then show ?thesis using 1 by (simp add: timeUntilPrice_def)
  next
    case 2
    then have "calculateCurrentPrice now p = minPrice p"
      using clock D by (simp add: calculateCurrentPrice_def D_def)
    then show ?thesis using 2 R D by (simp add: timeUntilPrice_def D_def R_def Let_def)
  next
    case 3
    define decay where "decay = (R * t) div D"
    note f = inverse_bounds [OF D R(2) 3]
    have bd: "bigint_div (R * t) D = decay"
      using 3 R D by (simp add: bigint_div_nonneg decay_def)
    have price: "calculateCurrentPrice now p = startPrice p - decay"
      using clock 3 f(1,2) bd
      by (simp add: calculateCurrentPrice_def Let_def D_def [symmetric] R_def [symmetric] decay_def)
         (simp add: R_def)
    have dD: "0 \<le> decay * D" using f(1) D by (simp add: decay_def)
    have bd2: "bigint_div (decay * D) R = (decay * D) div R"
      using dD R by (simp add: bigint_div_nonneg)
    have nn: "0 \<le> (decay * D) div R" using dD R
      by (simp add: pos_imp_zdiv_nonneg_iff)
    have "timeUntilPrice (auctionStartTime p) p (startPrice p - decay) = (decay * D) div R"
      using f(1,2) bd2 nn
      by (simp add: timeUntilPrice_def Let_def D_def [symmetric] R_def [symmetric] decay_def [symmetric])
         (simp add: R_def)
    then show ?thesis using price f(3,4) by (simp add: decay_def)
  qed
qed

theorem timeUntilPrice_at_decay_start_witness:
  "(0 \<le> minPrice sampleAuction
    \<and> auctionDuration sampleAuction \<le> startPrice sampleAuction - minPrice sampleAuction
    \<and> 0 < auctionDuration sampleAuction
    \<and> (20500 - auctionStartTime sampleAuction) div 1000 = 20)
   \<and> \<bar>timeUntilPrice (auctionStartTime sampleAuction) sampleAuction
        (calculateCurrentPrice 20500 sampleAuction) - 20\<bar> \<le> 1"
proof (rule conjI)
  show "\<bar>timeUntilPrice (auctionStartTime sampleAuction) sampleAuction
        (calculateCurrentPrice 20500 sampleAuction) - 20\<bar> \<le> 1"
    by (rule timeUntilPrice_at_decay_start) (simp_all add: sampleAuction_def)
qed (simp add: sampleAuction_def)

section \<open>Properties of the decision engine\<close>

lemma evaluateRules_returns:
  assumes "\<forall>r\<in>set rs. \<exists>ev. evaluate r ctx = Inr ev"
  shows "\<exists>ds outs. evaluateRules rs ctx = Inr (ds, outs)
           \<and> ds = List.map_filter (\<lambda>r. decision (projr (evaluate r ctx))) rs"
  using assms
proof (induction rs)
  case Nil
  then show ?case by (simp add: List.map_filter_simps)
next
  case (Cons r rs)
  then obtain ev where ev: "evaluate r ctx = Inr ev" by auto
  from Cons obtain ds outs where rest: "evaluateRules rs ctx = Inr (ds, outs)"
    "ds = List.map_filter (\<lambda>r. decision (projr (evaluate r ctx))) rs" by auto
  show ?case using ev rest by (cases "decision ev") (simp_all add: List.map_filter_simps)
qed

lemma hd_insort_key:
  "hd (insort_key f x ys) = (if ys = [] \<or> f x \<le> f (hd ys) then x else hd ys)"
  by (cases ys) simp_all

lemma sort_key_Nil_iff: "sort_key f xs = [] \<longleftrightarrow> xs = []"
  by (metis length_sort length_0_conv)

lemma hd_sort_key:
  assumes "xs \<noteq> []"
  shows "\<exists>i<length xs. hd (sort_key f xs) = xs ! i
           \<and> (\<forall>j<length xs. f (xs ! i) \<le> f (xs ! j))
           \<and> (\<forall>j<i. f (xs ! i) < f (xs ! j))"
  using assms
proof (induction xs)
  case Nil
  then show ?case by simp
next
  case (Cons x xs)
  show ?case
  proof (cases "xs = []")
    case True
    then show ?thesis by simp
  next
    case False
    from Cons.IH [OF False] obtain i where i: "i < length xs" "hd (sort_key f xs) = xs ! i"
      "\<forall>j<length xs. f (xs ! i) \<le> f (xs ! j)" "\<forall>j<i. f (xs ! i) < f (xs ! j)" by blast
    have ne: "sort_key f xs \<noteq> []" using False by (simp add: sort_key_Nil_iff)
    show ?thesis
    proof (cases "f x \<le> f (xs ! i)")
      case True
      have "hd (sort_key f (x # xs)) = x" using True i(2) by (simp add: hd_insort_key)
      moreover have "\<forall>j<length (x # xs). f x \<le> f ((x # xs) ! j)"
        using True i(3) by (auto simp: nth_Cons split: nat.splits intro: order_trans)
      ultimately show ?thesis by (intro exI [of _ 0]) simp
    next
      case False
      have "hd (sort_key f (x # xs)) = (x # xs) ! Suc i"
        using False i(2) ne by (simp add: hd_insort_key)
      moreover have "\<forall>j<length (x # xs). f ((x # xs) ! Suc i) \<le> f ((x # xs) ! j)"
        using False i(3) by (auto simp: nth_Cons split: nat.splits)
      moreover have "\<forall>j<Suc i. f ((x # xs) ! Suc i) < f ((x # xs) ! j)"
        using False i(4) by (auto simp: nth_Cons split: nat.splits)
      ultimately show ?thesis using i(1) by (intro exI [of _ "Suc i"]) simp
    qed
  qed
qed

lemma chooseDecision_blocking:
  assumes "\<exists>d\<in>set ds. \<not> shouldYeet d"
  shows "chooseDecision ds \<in> set ds \<and> \<not> shouldYeet (chooseDecision ds)"
proof -
  have ne: "ds \<noteq> []" using assms by auto
  have "List.find (\<lambda>d. \<not> shouldYeet d) (sortByPriority ds) \<noteq> None"
    using assms by (auto simp: find_None_iff sortByPriority_def)
  then obtain b where b: "List.find (\<lambda>d. \<not> shouldYeet d) (sortByPriority ds) = Some b" by auto
  then have "b \<in> set (sortByPriority ds)" "\<not> shouldYeet b"
    by (auto simp: find_Some_iff)
  then have "b \<in> set ds" "\<not> shouldYeet b"
    by (simp_all add: sortByPriority_def)
  moreover have "chooseDecision ds = b" using ne b by (simp add: chooseDecision_def)
  ultimately show ?thesis by simp
qed

lemma chooseDecision_acting:
  assumes "ds \<noteq> []" and "\<forall>d\<in>set ds. shouldYeet d"
  shows "chooseDecision ds = hd (sortByPriority ds)"
proof -
  have "List.find (\<lambda>d. \<not> shouldYeet d) (sortByPriority ds) = None"
    using assms(2) by (simp add: find_None_iff sortByPriority_def)
  then show ?thesis using assms(1) by (simp add: chooseDecision_def)
qed

lemma set_map_filter: "set (List.map_filter g xs) = {y. \<exists>x\<in>set xs. g x = Some y}"
  by (force simp: List.map_filter_def image_iff)

lemma map_filter_comp: "List.map_filter (\<lambda>x. g (h x)) xs = List.map_filter g (map h xs)"
  by (induction xs) (simp_all add: List.map_filter_simps split: option.splits)

lemma returns_list:
  assumes "map (\<lambda>r. evaluate r ctx) rs = map Inr evs"
  shows "\<forall>r\<in>set rs. \<exists>ev. evaluate r ctx = Inr ev"
    and "List.map_filter (\<lambda>r. decision (projr (evaluate r ctx))) rs = List.map_filter decision evs"
proof -
  have len: "length rs = length evs" using assms by (metis length_map)
  have nth: "evaluate (rs ! i) ctx = Inr (evs ! i)" if "i < length rs" for i
    using assms that len by (metis nth_map)
  show "\<forall>r\<in>set rs. \<exists>ev. evaluate r ctx = Inr ev"
    using nth by (metis in_set_conv_nth)
  have "map (\<lambda>r. projr (evaluate r ctx)) rs = evs"
    using len nth by (simp add: list_eq_iff_nth_eq)
  then show "List.map_filter (\<lambda>r. decision (projr (evaluate r ctx))) rs = List.map_filter decision evs"
    using map_filter_comp [of decision "\<lambda>r. projr (evaluate r ctx)" rs] by simp
qed


subsection \<open>The sample engines and the threshold-parity rule on the sample contexts\<close>

lemma validate_scenario: "0 \<le> p \<Longrightarrow> 0 \<le> a \<Longrightarrow> validateRuleContext (scenarioContext p a) = Inr ()"
  by (simp add: validateRuleContext_def scenarioContext_def and_then_def validateAddress_def
      validateNonNegativeBigInt_def validateFiniteNumber_def isValidAddress_def isHexChar_def)

lemma show_nat_digit: "n < 10 \<Longrightarrow> show_nat n = [digit_char n]"
  by (simp add: show_nat.simps)

lemma toFixed4_ether_small: "0 \<le> v \<Longrightarrow> v < 5 * 10 ^ 13 \<Longrightarrow> toFixed4_ether v = ''0.0000''"
  by (simp add: toFixed4_ether_def Let_def show_nat_digit digit_char_def)

lemma number_text_0: "number_text (Num 0) = ''0''"
  by (simp add: show_nat_digit digit_char_def)

lemma parity_rule_waits:
  "BGTEqualsCurrentPriceRule_evaluate \<lparr>profitBuffer = Num 0\<rparr> (scenarioContext 10000 5000)
   = Inr \<lparr>decision = None,
          thoughts =
            \<lparr>currentValue = ''BGT: 0.0000 BERA'',
             targetValue = ''Need: 0.0000 BERA'',
             progress = Num 50,
             reasoning = ''Accumulating BGT... 50s until target (price + 0% buffer)''\<rparr>\<rparr>"
proof -
  have ctx: "currentPrice (auction (scenarioContext 10000 5000)) = 10000"
    "totalAccumulated (bgtRewards (scenarioContext 10000 5000)) = 5000"
    "bgtPerSecond (bgtRewards (scenarioContext 10000 5000)) = 100"
    by (simp_all add: scenarioContext_def)
  have s50: "show_int 50 = ''50''"
    by (simp add: show_int_def show_nat.simps [of 50] show_nat_digit digit_char_def)
  show ?thesis
    by (simp add: BGTEqualsCurrentPriceRule_evaluate_def validate_scenario and_then_def ctx
        bigint_div_def Let_def toFixed4_ether_small number_text_0 s50 del: number_text.simps)
qed

lemma parity_rule_acts:
  "BGTEqualsCurrentPriceRule_evaluate \<lparr>profitBuffer = Num 0\<rparr> (scenarioContext 10000 15000)
   = Inr \<lparr>decision = Some
            \<lparr>shouldYeet = True,
             reason = ''BGT earnings (0.0000) >= required BGT (0.0000) [0% buffer]'',
             priority = 90,
             ruleName = Some ''BGTEqualsCurrentPrice'',
             suggestedGasMultiplier = Some (Num (3 / 2))\<rparr>,
          thoughts =
            \<lparr>currentValue = ''BGT: 0.0000 BERA'',
             targetValue = ''Need: 0.0000 BERA (price + 0% buffer)'',
             progress = Num 100,
             reasoning = ''BGT accumulated exceeds price with buffer - ready to yeet!''\<rparr>\<rparr>"
proof -
  have ctx: "currentPrice (auction (scenarioContext 10000 15000)) = 10000"
    "totalAccumulated (bgtRewards (scenarioContext 10000 15000)) = 15000"
    "bgtPerSecond (bgtRewards (scenarioContext 10000 15000)) = 100"
    by (simp_all add: scenarioContext_def)
  show ?thesis
    by (simp add: BGTEqualsCurrentPriceRule_evaluate_def validate_scenario and_then_def ctx
        bigint_div_def Let_def toFixed4_ether_small number_text_0
        RULE_PRIORITIES_BGT_EQUALS_PRICE_def del: number_text.simps)
qed

lemma parityEngine_rules:
  "getRules parityEngine = [BGTEqualsCurrentPriceRule_rule \<lparr>profitBuffer = Num 0\<rparr>]"
  by (simp add: getRules_def parityEngine_def addRule_def DecisionEngine_new_def)

lemma blockedEngine_rules:
  "getRules blockedEngine =
     [mockRule ''Safety'' 70 (Some (mockDecision False ''Safety block'' 70)),
      BGTEqualsCurrentPriceRule_rule \<lparr>profitBuffer = Num 0\<rparr>]"
  by (simp add: getRules_def blockedEngine_def addRule_def DecisionEngine_new_def mockRule_def
      BGTEqualsCurrentPriceRule_rule_def)

lemma tiedEngine_rules:
  "getRules tiedEngine =
     [mockRule ''Low'' 50 (Some (mockDecision True ''low'' 50)),
      mockRule ''First'' 80 (Some (mockDecision True ''first'' 80)),
      mockRule ''Second'' 80 (Some (mockDecision True ''second'' 80))]"
  by (simp add: getRules_def tiedEngine_def addRule_def DecisionEngine_new_def mockRule_def)


subsection \<open>Blocking precedence, priority selection, default decision\<close>

text \<open>
  C1 (blocking precedence).  Whenever the registered rules all return and at least one of
  them returns a decision with \<open>shouldYeet = False\<close>, the engine returns a decision
  with \<open>shouldYeet = False\<close>, and that decision is one the rules returned; the
  priorities of the acting decisions play no part.  (A rule that throws ends the
  evaluation with that error, and then no decision is returned at all.)
\<close>

theorem blocking_precedence:
  assumes returns: "\<forall>r\<in>set (getRules engine). \<exists>ev. evaluate r context = Inr ev"
    and blocking: "\<exists>r\<in>set (getRules engine). \<exists>ev d. evaluate r context = Inr ev
                      \<and> decision ev = Some d \<and> \<not> shouldYeet d"
  shows "\<exists>final engine'. DecisionEngine_evaluate engine context = Inr (final, engine')
           \<and> \<not> shouldYeet final
           \<and> (\<exists>r\<in>set (getRules engine). \<exists>ev. evaluate r context = Inr ev
                  \<and> decision ev = Some final)"
proof -
  from evaluateRules_returns [OF returns] obtain ds outs
    where run: "evaluateRules (getRules engine) context = Inr (ds, outs)"
      and ds: "ds = List.map_filter (\<lambda>r. decision (projr (evaluate r context))) (getRules engine)"
    by blast
  have mem: "d \<in> set ds \<longleftrightarrow> (\<exists>r\<in>set (getRules engine). \<exists>ev. evaluate r context = Inr ev
                  \<and> decision ev = Some d)" for d
  proof
    assume "d \<in> set ds"
    then obtain r where r: "r \<in> set (getRules engine)"
      "decision (projr (evaluate r context)) = Some d"
      unfolding ds set_map_filter by blast
    from returns r(1) obtain ev where "evaluate r context = Inr ev" by blast
    with r show "\<exists>r\<in>set (getRules engine). \<exists>ev. evaluate r context = Inr ev
                  \<and> decision ev = Some d" by auto
  next
    assume "\<exists>r\<in>set (getRules engine). \<exists>ev. evaluate r context = Inr ev
                  \<and> decision ev = Some d"
    then show "d \<in> set ds" unfolding ds set_map_filter by force
  qed
  from blocking have "\<exists>d\<in>set ds. \<not> shouldYeet d" using mem by blast
  from chooseDecision_blocking [OF this]
  have "chooseDecision ds \<in> set ds" "\<not> shouldYeet (chooseDecision ds)" by simp_all
  moreover have "DecisionEngine_evaluate engine context
      = Inr (chooseDecision ds,
             engine\<lparr>lastEvaluations :=
               Some \<lparr>finalDecision = chooseDecision ds, allEvaluations = outs\<rparr>\<rparr>)"
    using run by (simp add: DecisionEngine_evaluate_def getRules_def Let_def)
  ultimately show ?thesis using mem by blast
qed

text \<open>
  The blocked engine holds a blocking rule of priority 70 and the threshold-parity rule,
  which acts with priority 90 on price 10000 and accrued total 15000.
\<close>

theorem blocking_precedence_witness:
  "map (\<lambda>r. map_sum id (map_option (\<lambda>d. (shouldYeet d, priority d)) \<circ> decision)
            (evaluate r (scenarioContext 10000 15000))) (getRules blockedEngine)
     = [Inr (Some (False, 70)), Inr (Some (True, 90))]
   \<and> (\<exists>final engine'.
         DecisionEngine_evaluate blockedEngine (scenarioContext 10000 15000) = Inr (final, engine')
         \<and> \<not> shouldYeet final
         \<and> (\<exists>r\<in>set (getRules blockedEngine). \<exists>ev.
               evaluate r (scenarioContext 10000 15000) = Inr ev \<and> decision ev = Some final))"
proof (rule conjI)
  show "map (\<lambda>r. map_sum id (map_option (\<lambda>d. (shouldYeet d, priority d)) \<circ> decision)
            (evaluate r (scenarioContext 10000 15000))) (getRules blockedEngine)
     = [Inr (Some (False, 70)), Inr (Some (True, 90))]"
    by (simp add: blockedEngine_rules mockRule_def mockEvaluation_def mockDecision_def
        BGTEqualsCurrentPriceRule_rule_def parity_rule_acts)
  show "\<exists>final engine'.
         DecisionEngine_evaluate blockedEngine (scenarioContext 10000 15000) = Inr (final, engine')
         \<and> \<not> shouldYeet final
         \<and> (\<exists>r\<in>set (getRules blockedEngine). \<exists>ev.
               evaluate r (scenarioContext 10000 15000) = Inr ev \<and> decision ev = Some final)"
  proof (rule blocking_precedence)
    show "\<forall>r\<in>set (getRules blockedEngine). \<exists>ev. evaluate r (scenarioContext 10000 15000) = Inr ev"
      by (simp add: blockedEngine_rules mockRule_def BGTEqualsCurrentPriceRule_rule_def
          parity_rule_acts)
    show "\<exists>r\<in>set (getRules blockedEngine). \<exists>ev d.
            evaluate r (scenarioContext 10000 15000) = Inr ev \<and> decision ev = Some d \<and> \<not> shouldYeet d"
      by (simp add: blockedEngine_rules mockRule_def mockEvaluation_def mockDecision_def)
  qed
qed

text \<open>
  C3 (priority selection).  Let \<open>ds\<close> be the decisions of the triggered rules, in
  registration order, all of them acting.  The engine returns the decision \<open>ds ! i\<close>
  whose priority is maximal, and every decision registered before it has a strictly
  smaller priority: among equal maximal priorities the first registered wins.
\<close>

theorem priority_selection:
  assumes returns: "map (\<lambda>r. evaluate r context) (getRules engine) = map Inr evs"
    and ds: "ds = List.map_filter decision evs"
    and triggered: "ds \<noteq> []"
    and acting: "\<forall>d\<in>set ds. shouldYeet d"
  shows "\<exists>i engine'. i < length ds
           \<and> DecisionEngine_evaluate engine context = Inr (ds ! i, engine')
           \<and> (\<forall>j<length ds. priority (ds ! j) \<le> priority (ds ! i))
           \<and> (\<forall>j<i. priority (ds ! j) < priority (ds ! i))"
proof -
  note r = returns_list [OF returns]
  from evaluateRules_returns [OF r(1)] obtain outs
    where run: "evaluateRules (getRules engine) context = Inr (ds, outs)"
    unfolding r(2) ds by blast
  from hd_sort_key [OF triggered, of "\<lambda>d. - priority d"] obtain i
    where i: "i < length ds" "hd (sortByPriority ds) = ds ! i"
      "\<forall>j<length ds. priority (ds ! j) \<le> priority (ds ! i)"
      "\<forall>j<i. priority (ds ! j) < priority (ds ! i)"
    unfolding sortByPriority_def by auto
  have "DecisionEngine_evaluate engine context
      = Inr (ds ! i,
             engine\<lparr>lastEvaluations :=
               Some \<lparr>finalDecision = ds ! i, allEvaluations = outs\<rparr>\<rparr>)"
    using run chooseDecision_acting [OF triggered acting] i(2)
    by (simp add: DecisionEngine_evaluate_def getRules_def Let_def)
  with i show ?thesis by blast
qed

text \<open>
  Three acting rules registered in the order priority 50, 80, 80: the first of the two
  with priority 80 is returned.
\<close>

theorem priority_selection_witness:
  "map (\<lambda>r. evaluate r (scenarioContext 10000 5000)) (getRules tiedEngine)
     = map Inr [mockEvaluation (Some (mockDecision True ''low'' 50)),
                mockEvaluation (Some (mockDecision True ''first'' 80)),
                mockEvaluation (Some (mockDecision True ''second'' 80))]
   \<and> (\<exists>i engine'. i < length [mockDecision True ''low'' 50, mockDecision True ''first'' 80,
                               mockDecision True ''second'' 80]
        \<and> DecisionEngine_evaluate tiedEngine (scenarioContext 10000 5000)
            = Inr ([mockDecision True ''low'' 50, mockDecision True ''first'' 80,
                    mockDecision True ''second'' 80] ! i, engine')
        \<and> (\<forall>j<length [mockDecision True ''low'' 50, mockDecision True ''first'' 80,
                         mockDecision True ''second'' 80].
              priority ([mockDecision True ''low'' 50, mockDecision True ''first'' 80,
                         mockDecision True ''second'' 80] ! j)
              \<le> priority ([mockDecision True ''low'' 50, mockDecision True ''first'' 80,
                            mockDecision True ''second'' 80] ! i))
        \<and> (\<forall>j<i. priority ([mockDecision True ''low'' 50, mockDecision True ''first'' 80,
                               mockDecision True ''second'' 80] ! j)
              < priority ([mockDecision True ''low'' 50, mockDecision True ''first'' 80,
                           mockDecision True ''second'' 80] ! i)))
   \<and> map_sum id fst (DecisionEngine_evaluate tiedEngine (scenarioContext 10000 5000))
     = Inr (mockDecision True ''first'' 80)"
proof (intro conjI)
  show returns: "map (\<lambda>r. evaluate r (scenarioContext 10000 5000)) (getRules tiedEngine)
     = map Inr [mockEvaluation (Some (mockDecision True ''low'' 50)),
                mockEvaluation (Some (mockDecision True ''first'' 80)),
                mockEvaluation (Some (mockDecision True ''second'' 80))]"
    by (simp add: tiedEngine_rules mockRule_def)
  show "\<exists>i engine'. i < length [mockDecision True ''low'' 50, mockDecision True ''first'' 80,
                               mockDecision True ''second'' 80]
        \<and> DecisionEngine_evaluate tiedEngine (scenarioContext 10000 5000)
            = Inr ([mockDecision True ''low'' 50, mockDecision True ''first'' 80,
                    mockDecision True ''second'' 80] ! i, engine')
        \<and> (\<forall>j<length [mockDecision True ''low'' 50, mockDecision True ''first'' 80,
                         mockDecision True ''second'' 80].
              priority ([mockDecision True ''low'' 50, mockDecision True ''first'' 80,
                         mockDecision True ''second'' 80] ! j)
              \<le> priority ([mockDecision True ''low'' 50, mockDecision True ''first'' 80,
                            mockDecision True ''second'' 80] ! i))
        \<and> (\<forall>j<i. priority ([mockDecision True ''low'' 50, mockDecision True ''first'' 80,
                               mockDecision True ''second'' 80] ! j)
              < priority ([mockDecision True ''low'' 50, mockDecision True ''first'' 80,
                           mockDecision True ''second'' 80] ! i))"
    by (rule priority_selection [OF returns])
       (simp_all add: List.map_filter_simps mockEvaluation_def mockDecision_def)
  show "map_sum id fst (DecisionEngine_evaluate tiedEngine (scenarioContext 10000 5000))
     = Inr (mockDecision True ''first'' 80)"
    by (simp add: DecisionEngine_evaluate_def tiedEngine_rules [unfolded getRules_def]
        mockRule_def mockEvaluation_def mockDecision_def chooseDecision_def sortByPriority_def
        Let_def)
qed

text \<open>
  C9 (default decision).  As stated the claim fails on the reason string: the engine's
  default decision reads \<open>No rules triggered\<close>, not \<open>no rule triggered\<close>.  Here the
  only registered rule is the threshold-parity rule, which returns no decision when the
  accrued total 5000 is below the price 10000.
\<close>

theorem no_rule_triggered_counterexample:
  "getRules parityEngine = [BGTEqualsCurrentPriceRule_rule \<lparr>profitBuffer = Num 0\<rparr>]
   \<and> map_sum id decision
       (BGTEqualsCurrentPriceRule_evaluate \<lparr>profitBuffer = Num 0\<rparr> (scenarioContext 10000 5000))
     = Inr None
   \<and> map_sum id fst (DecisionEngine_evaluate parityEngine (scenarioContext 10000 5000))
     = Inr \<lparr>shouldYeet = False, reason = ''No rules triggered'', priority = 0,
            ruleName = None, suggestedGasMultiplier = None\<rparr>
   \<and> map_sum id fst (DecisionEngine_evaluate parityEngine (scenarioContext 10000 5000))
     \<noteq> Inr \<lparr>shouldYeet = False, reason = ''no rule triggered'', priority = 0,
            ruleName = None, suggestedGasMultiplier = None\<rparr>"
  by (simp add: DecisionEngine_evaluate_def parityEngine_rules
      parityEngine_rules [unfolded getRules_def]
      BGTEqualsCurrentPriceRule_rule_def parity_rule_waits chooseDecision_def Let_def)

text \<open>
  C9, amended.  When every registered rule returns no decision, the engine returns exactly
  the decision with \<open>shouldYeet = False\<close>, reason \<open>No rules triggered\<close>, priority 0,
  and neither a rule name nor a gas multiplier.
\<close>

theorem no_rule_triggered:
  assumes "\<forall>r\<in>set (getRules engine). \<exists>ev. evaluate r context = Inr ev \<and> decision ev = None"
  shows "\<exists>engine'. DecisionEngine_evaluate engine context =
           Inr (\<lparr>shouldYeet = False, reason = ''No rules triggered'', priority = 0,
                 ruleName = None, suggestedGasMultiplier = None\<rparr>, engine')"
proof -
  have returns: "\<forall>r\<in>set (getRules engine). \<exists>ev. evaluate r context = Inr ev"
    using assms by blast
  from evaluateRules_returns [OF returns] obtain ds outs
    where run: "evaluateRules (getRules engine) context = Inr (ds, outs)"
      and ds: "ds = List.map_filter (\<lambda>r. decision (projr (evaluate r context))) (getRules engine)"
    by blast
  have "set ds = {}" unfolding ds set_map_filter using assms by force
  then have "ds = []" by simp
  then show ?thesis using run
    by (simp add: DecisionEngine_evaluate_def getRules_def chooseDecision_def Let_def)
qed

theorem no_rule_triggered_witness:
  "map (\<lambda>r. map_sum id decision (evaluate r (scenarioContext 10000 5000))) (getRules parityEngine)
     = [Inr None]
   \<and> (\<exists>engine'. DecisionEngine_evaluate parityEngine (scenarioContext 10000 5000) =
           Inr (\<lparr>shouldYeet = False, reason = ''No rules triggered'', priority = 0,
                 ruleName = None, suggestedGasMultiplier = None\<rparr>, engine'))"
proof (rule conjI)
  show "map (\<lambda>r. map_sum id decision (evaluate r (scenarioContext 10000 5000))) (getRules parityEngine)
     = [Inr None]"
    by (simp add: parityEngine_rules BGTEqualsCurrentPriceRule_rule_def parity_rule_waits)
  have hyp: "\<forall>r\<in>set (getRules parityEngine). \<exists>ev.
       evaluate r (scenarioContext 10000 5000) = Inr ev \<and> decision ev = None"
    by (simp add: parityEngine_rules BGTEqualsCurrentPriceRule_rule_def parity_rule_waits)
  show "\<exists>engine'. DecisionEngine_evaluate parityEngine (scenarioContext 10000 5000) =
           Inr (\<lparr>shouldYeet = False, reason = ''No rules triggered'', priority = 0,
                 ruleName = None, suggestedGasMultiplier = None\<rparr>, engine')"
    by (rule no_rule_triggered [OF hyp])
qed


section \<open>Properties of the reward accrual and the profitability projection\<close>

lemma double_of_int_exact:
  assumes "0 \<le> n" and "n \<le> 2 ^ 53"
  shows "double_of_int n = n"
proof (cases "n < 2 ^ 53")
  case True
  then have "double_ulp (nat n) = 1"
    using assms(1) by (simp add: double_ulp.simps [of "nat n"] nat_less_iff)
  then show ?thesis using assms(1) by (cases "n = 0") (simp_all add: double_of_int_def Let_def)
next
  case False
  then have n: "n = 2 ^ 53" using assms(2) by simp
  have "double_ulp 9007199254740992 = 2"
    by (simp add: double_ulp.simps [of 9007199254740992] double_ulp.simps [of 4503599627370496])
  then show ?thesis by (simp add: n double_of_int_def Let_def)
qed

text \<open>
  C6 (accrual formula).  As stated the claim fails for very long leads: \<open>safeToNumber\<close>
  clamps the elapsed time to \<open>Number.MAX_SAFE_INTEGER = 2^53 - 1\<close>, and the sum
  \<open>timeElapsed + auctionTime\<close> is a double addition, which rounds above \<open>2^53\<close>.
  With an expected duration of 60: a lead of \<open>2^53\<close> seconds is reported as
  \<open>2^53 - 1\<close> elapsed seconds, and a lead of \<open>2^53 - 1\<close> seconds accrues for
  \<open>2^53 + 60\<close> seconds instead of \<open>2^53 + 59\<close>.
\<close>

theorem calculateBGTRewards_counterexample:
  "timeElapsed (calculateBGTRewards sampleStrategy 100 0 9007199254740992)
     = Num 9007199254740991
   \<and> timeElapsed (calculateBGTRewards sampleStrategy 100 0 9007199254740992)
     \<noteq> Num (of_int (9007199254740992 - 0))
   \<and> totalAccumulated (calculateBGTRewards sampleStrategy 100 0 9007199254740991)
     = 100 * (9007199254740991 + 61)
   \<and> totalAccumulated (calculateBGTRewards sampleStrategy 100 0 9007199254740991)
     \<noteq> 100 * ((9007199254740991 - 0) + min (9007199254740991 - 0) 60)"
proof -
  have u: "double_ulp 9007199254741051 = 2"
    by (simp add: double_ulp.simps [of 9007199254741051] double_ulp.simps [of 4503599627370525])
  show ?thesis
    by (simp add: calculateBGTRewards_def sampleStrategy_def safeToNumber_def
        MAX_SAFE_INTEGER_def MIN_SAFE_INTEGER_def double_of_int_def u Let_def)
qed

text \<open>
  C6, amended.  For a non-negative expected decay duration, every accrual rate, and every
  current time not earlier than the lead-start time with \<open>now - leadStartTime\<close> at most
  \<open>2^53 - 1\<close> and \<open>elapsed + min(elapsed, expectedDecayDuration)\<close> at most \<open>2^53\<close>, the
  calculator returns \<open>elapsedSeconds = now - leadStartTime\<close> and
  \<open>totalAccrued = ratePerSecond * (elapsedSeconds + min(elapsedSeconds,
  expectedDecayDuration))\<close>, exactly.
\<close>

theorem calculateBGTRewards_formula:
  assumes "leaderTimestamp' \<le> currentTimestamp"
    and "currentTimestamp - leaderTimestamp' \<le> MAX_SAFE_INTEGER"
    and "0 \<le> expectedAuctionDuration cfg"
    and "(currentTimestamp - leaderTimestamp')
           + min (currentTimestamp - leaderTimestamp') (expectedAuctionDuration cfg) \<le> 2 ^ 53"
  shows "calculateBGTRewards cfg rate leaderTimestamp' currentTimestamp =
           \<lparr>bgtPerSecond = rate,
            totalAccumulated = rate * ((currentTimestamp - leaderTimestamp')
              + min (currentTimestamp - leaderTimestamp') (expectedAuctionDuration cfg)),
            timeElapsed = Num (of_int (currentTimestamp - leaderTimestamp'))\<rparr>"
proof -
  define e where "e = currentTimestamp - leaderTimestamp'"
  have e: "0 \<le> e" "e \<le> MAX_SAFE_INTEGER" using assms(1,2) by (simp_all add: e_def)
  then have safe: "safeToNumber e = e"
    by (simp add: safeToNumber_def MIN_SAFE_INTEGER_def MAX_SAFE_INTEGER_def)
  have "0 \<le> e + min e (expectedAuctionDuration cfg)" using e(1) assms(3) by simp
  then have "double_of_int (e + min e (expectedAuctionDuration cfg))
      = e + min e (expectedAuctionDuration cfg)"
    using assms(4) by (intro double_of_int_exact) (simp_all add: e_def)
  then show ?thesis
    by (simp add: calculateBGTRewards_def Let_def e_def [symmetric] safe)
qed

theorem calculateBGTRewards_formula_witness:
  "((1000::int) \<le> 1120 \<and> (1120::int) - 1000 \<le> MAX_SAFE_INTEGER
     \<and> 0 \<le> expectedAuctionDuration sampleStrategy
     \<and> (1120 - 1000) + min (1120 - 1000) (expectedAuctionDuration sampleStrategy) \<le> 2 ^ 53)
   \<and> calculateBGTRewards sampleStrategy 100 1000 1120 =
        \<lparr>bgtPerSecond = 100,
         totalAccumulated = 100 * ((1120 - 1000)
              + min (1120 - 1000) (expectedAuctionDuration sampleStrategy)),
         timeElapsed = Num (of_int (1120 - 1000))\<rparr>
   \<and> totalAccumulated (calculateBGTRewards sampleStrategy 100 1000 1120) = 18000"
proof (intro conjI)
  show r: "calculateBGTRewards sampleStrategy 100 1000 1120 =
        \<lparr>bgtPerSecond = 100,
         totalAccumulated = 100 * ((1120 - 1000)
              + min (1120 - 1000) (expectedAuctionDuration sampleStrategy)),
         timeElapsed = Num (of_int (1120 - 1000))\<rparr>"
    by (rule calculateBGTRewards_formula) (simp_all add: sampleStrategy_def MAX_SAFE_INTEGER_def)
  show "totalAccumulated (calculateBGTRewards sampleStrategy 100 1000 1120) = 18000"
    by (subst r) (simp add: sampleStrategy_def)
qed (simp_all add: sampleStrategy_def MAX_SAFE_INTEGER_def)

lemma timeToProfit_loop_zero_price:
  "\<exists>m'. timeToProfit_loop cfg 0 rate thresholds m = Inr m'"
  by (induction thresholds arbitrary: m) (auto simp: timeToProfit_one_def)

text \<open>
  C7 (zero price).  As stated the claim fails at an accrual rate of zero: the break-even
  time is guarded by \<open>bgtPerSecond > 0n\<close> before the price is looked at, so a zero rate
  reports \<open>Infinity\<close> also when the price is zero.
\<close>

theorem calculateProfitMetrics_zero_price_counterexample:
  "map_sum id breakEvenTime
     (calculateProfitMetrics sampleStrategy 0
        \<lparr>bgtPerSecond = 0, totalAccumulated = 0, timeElapsed = Num 0\<rparr>) = Inr PosInfinity
   \<and> map_sum id breakEvenTime
     (calculateProfitMetrics sampleStrategy 0
        \<lparr>bgtPerSecond = 0, totalAccumulated = 0, timeElapsed = Num 0\<rparr>) \<noteq> Inr (Num 0)"
  by (simp add: calculateProfitMetrics_def sampleStrategy_def timeToProfit_one_def Let_def)

text \<open>
  C7, amended.  For every accrual state and configuration, if the price paid by the leader
  is zero the projector raises no error and returns \<open>returnPercentage = 0\<close> and
  \<open>profitPercentage = 0\<close>; \<open>breakEvenTime\<close> is 0 when the accrual rate is positive and
  \<open>Infinity\<close> when it is zero (or negative).
\<close>

theorem calculateProfitMetrics_zero_price:
  "\<exists>m. calculateProfitMetrics cfg 0 rewards = Inr m
       \<and> returnPercentage m = Num 0
       \<and> profitPercentage m = Num 0
       \<and> breakEvenTime m = (if bgtPerSecond rewards > 0 then Num 0 else PosInfinity)"
proof -
  obtain m' where
    "timeToProfit_loop cfg 0 (bgtPerSecond rewards)
       (case profitThresholds cfg of Some ts \<Rightarrow> ts
        | None \<Rightarrow> [Num 0, Num 10, Num 20, Num 40, Num 60]) Map.empty = Inr m'"
    using timeToProfit_loop_zero_price by blast
  then show ?thesis
    by (simp add: calculateProfitMetrics_def Let_def safeDivideToNumber_def bigint_div_def
        safeToNumber_def MAX_SAFE_INTEGER_def MIN_SAFE_INTEGER_def)
qed

section \<open>Properties of the threshold-parity rule\<close>

text \<open>
  C10 (configuration error).  Constructing the rule with an undefined profit buffer fails
  with the error; with any defined value, finite or not, it succeeds and stores the value
  clamped by \<open>Math.max(0, Math.min(100, _))\<close>.
\<close>

theorem BGTEqualsCurrentPriceRule_new_requires_buffer:
  "BGTEqualsCurrentPriceRule_new None = Inl ProfitBufferRequired
   \<and> (\<forall>b. \<exists>rule. BGTEqualsCurrentPriceRule_new (Some b) = Inr rule
          \<and> profitBuffer rule = Math_max (Num 0) (Math_min (Num 100) b))"
  by (simp add: BGTEqualsCurrentPriceRule_new_def)

lemma toFixed4_ether_10000: "toFixed4_ether 10000 = ''0.0000''"
  by (rule toFixed4_ether_small) simp_all

text \<open>
  C8 (scenario A).  As stated the claim fails on the priority: the rule's decision carries
  \<open>RULE_PRIORITIES.BGT_EQUALS_PRICE\<close>, which is 90, not 100.  The rule also compares the
  accrued total with the auction's current price, not with the amount the leader paid:
  with leader amount 10000, accrued total 10000 and current price 20000 it returns no
  decision.
\<close>

theorem parity_rule_scenario_counterexample:
  "map_sum id (map_option priority \<circ> decision)
     (BGTEqualsCurrentPriceRule_evaluate \<lparr>profitBuffer = Num 0\<rparr> (scenarioContext 10000 10000))
     = Inr (Some 90)
   \<and> map_sum id (map_option priority \<circ> decision)
     (BGTEqualsCurrentPriceRule_evaluate \<lparr>profitBuffer = Num 0\<rparr> (scenarioContext 10000 10000))
     \<noteq> Inr (Some 100)
   \<and> leaderAmount (auction (scenarioContext 20000 10000)) = 10000
   \<and> map_sum id decision
     (BGTEqualsCurrentPriceRule_evaluate \<lparr>profitBuffer = Num 0\<rparr> (scenarioContext 20000 10000))
     = Inr None"
proof -
  have ctx: "currentPrice (auction (scenarioContext p a)) = p"
    "totalAccumulated (bgtRewards (scenarioContext p a)) = a"
    "bgtPerSecond (bgtRewards (scenarioContext p a)) = 100"
    "leaderAmount (auction (scenarioContext p a)) = 10000" for p a
    by (simp_all add: scenarioContext_def)
  show ?thesis
    by (simp add: BGTEqualsCurrentPriceRule_evaluate_def validate_scenario and_then_def ctx
        bigint_div_def Let_def RULE_PRIORITIES_BGT_EQUALS_PRICE_def)
qed

text \<open>
  C8, amended.  For every well-formed context in which the auction's current price is
  10000 and the accrued reward total is 10000, the rule constructed with a profit buffer
  of 0 returns an acting decision whose priority is 90 and whose reason reads
  \<open>BGT earnings (0.0000) >= required BGT (0.0000) [0% buffer]\<close>.
\<close>

theorem parity_rule_scenario:
  assumes "validateRuleContext context = Inr ()"
    and "currentPrice (auction context) = 10000"
    and "totalAccumulated (bgtRewards context) = 10000"
  shows "\<exists>rule ev. BGTEqualsCurrentPriceRule_new (Some (Num 0)) = Inr rule
           \<and> BGTEqualsCurrentPriceRule_evaluate rule context = Inr ev
           \<and> decision ev = Some
               \<lparr>shouldYeet = True,
                reason = ''BGT earnings (0.0000) >= required BGT (0.0000) [0% buffer]'',
                priority = 90,
                ruleName = Some ''BGTEqualsCurrentPrice'',
                suggestedGasMultiplier = Some (Num (3 / 2))\<rparr>"
  using assms
  by (simp add: BGTEqualsCurrentPriceRule_new_def BGTEqualsCurrentPriceRule_evaluate_def
      and_then_def bigint_div_def Let_def toFixed4_ether_10000 number_text_0
      RULE_PRIORITIES_BGT_EQUALS_PRICE_def del: number_text.simps)

theorem parity_rule_scenario_witness:
  "(validateRuleContext (scenarioContext 10000 10000) = Inr ()
    \<and> currentPrice (auction (scenarioContext 10000 10000)) = 10000
    \<and> totalAccumulated (bgtRewards (scenarioContext 10000 10000)) = 10000)
   \<and> (\<exists>rule ev. BGTEqualsCurrentPriceRule_new (Some (Num 0)) = Inr rule
           \<and> BGTEqualsCurrentPriceRule_evaluate rule (scenarioContext 10000 10000) = Inr ev
           \<and> decision ev = Some
               \<lparr>shouldYeet = True,
                reason = ''BGT earnings (0.0000) >= required BGT (0.0000) [0% buffer]'',
                priority = 90,
                ruleName = Some ''BGTEqualsCurrentPrice'',
                suggestedGasMultiplier = Some (Num (3 / 2))\<rparr>)"
proof (rule conjI)
  show "validateRuleContext (scenarioContext 10000 10000) = Inr ()
    \<and> currentPrice (auction (scenarioContext 10000 10000)) = 10000
    \<and> totalAccumulated (bgtRewards (scenarioContext 10000 10000)) = 10000"
    by (simp add: validate_scenario) (simp add: scenarioContext_def)
  show "\<exists>rule ev. BGTEqualsCurrentPriceRule_new (Some (Num 0)) = Inr rule
           \<and> BGTEqualsCurrentPriceRule_evaluate rule (scenarioContext 10000 10000) = Inr ev
           \<and> decision ev = Some
               \<lparr>shouldYeet = True,
                reason = ''BGT earnings (0.0000) >= required BGT (0.0000) [0% buffer]'',
                priority = 90,
                ruleName = Some ''BGTEqualsCurrentPrice'',
                suggestedGasMultiplier = Some (Num (3 / 2))\<rparr>"
    by (rule parity_rule_scenario) (simp_all add: validate_scenario, simp_all add: scenarioContext_def)
qed

section \<open>Properties of the serialized execution\<close>

lemma chainInvariant_new: "chainInvariant BotRunner_new"
  by (simp add: chainInvariant_def BotRunner_new_def)

lemma chainInvariant_length: "chainInvariant s \<Longrightarrow> length (yeetMutex s) = yeetLockCount s"
  by (metis chainInvariant_def length_map length_upt diff_Suc_1)

lemma chainInvariant_lockId:
  "chainInvariant s \<Longrightarrow> k < length (yeetMutex s) \<Longrightarrow> lockId (yeetMutex s ! k) = Suc k"
proof -
  assume inv: "chainInvariant s" and k: "k < length (yeetMutex s)"
  have "lockId (yeetMutex s ! k) = map lockId (yeetMutex s) ! k" using k by simp
  also have "\<dots> = [1..<Suc (yeetLockCount s)] ! k" using inv by (simp add: chainInvariant_def)
  also have "\<dots> = Suc k" using k chainInvariant_length [OF inv] by (simp del: upt_Suc)
  finally show ?thesis .
qed

lemma step_invariant:
  assumes inv: "chainInvariant s" and st: "step e s = Some s'"
  shows "chainInvariant s'"
proof (cases e)
  case (ExecuteYeet d)
  then have s': "s' = s\<lparr>yeetLockCount := Suc (yeetLockCount s),
      yeetMutex := yeetMutex s @ [\<lparr>lockId = Suc (yeetLockCount s), requested = d,
        requestState = Waiting\<rparr>]\<rparr>"
    using st by (simp add: Let_def)
  show ?thesis using inv
    by (auto simp: chainInvariant_def s' nth_append)
next
  case (StartCallback k)
  let ?q = "yeetMutex s"
  from st StartCallback have k: "k < length ?q" "requestState (?q ! k) = Waiting"
    "k = 0 \<or> settled (?q ! (k - 1))"
    and s': "yeetMutex s' = ?q[k := (?q ! k)\<lparr>requestState :=
        (if lockId (?q ! k) \<noteq> yeetLockCount s then Superseded else Executing)\<rparr>]"
      "yeetLockCount s' = yeetLockCount s"
    by (auto split: if_splits)
  have ids: "map lockId (yeetMutex s') = map lockId ?q"
    unfolding s' by (simp add: map_update list_update_same_conv k(1))
  have before: "settled (?q ! i)" if "i < k" for i
  proof (cases "i = k - 1")
    case True
    then show ?thesis using k(3) that by auto
  next
    case False
    then have lt: "i < k - 1" using that by simp
    have "requestState (?q ! (k - 1)) \<noteq> Waiting" using k(3) that by (auto simp: settled_def)
    moreover have "k - 1 < length ?q" using k(1) by simp
    ultimately show ?thesis using inv lt unfolding chainInvariant_def by blast
  qed
  have after: "requestState (?q ! j) = Waiting" if "k < j" "j < length ?q" for j
  proof (rule ccontr)
    assume "requestState (?q ! j) \<noteq> Waiting"
    then have "settled (?q ! k)" using inv that unfolding chainInvariant_def by blast
    then show False using k(2) by (simp add: settled_def)
  qed
  have "\<forall>j<length (yeetMutex s'). requestState (yeetMutex s' ! j) \<noteq> Waiting
          \<longrightarrow> (\<forall>i<j. settled (yeetMutex s' ! i))"
  proof (intro allI impI)
    fix j i
    assume j: "j < length (yeetMutex s')" "requestState (yeetMutex s' ! j) \<noteq> Waiting" and i: "i < j"
    have jl: "j < length ?q" using j(1) by (simp add: s')
    have "\<not> k < j" using after [of j] j(2) jl by (auto simp: s')
    then have "i < k" using i by simp
    then show "settled (yeetMutex s' ! i)" using before [of i] by (simp add: s')
  qed
  then show ?thesis using inv ids s'(2) by (simp add: chainInvariant_def)
next
  case (FinishInternal k)
  let ?q = "yeetMutex s"
  from st FinishInternal have k: "k < length ?q" "requestState (?q ! k) = Executing"
    and s': "yeetMutex s' = ?q[k := (?q ! k)\<lparr>requestState := Executed\<rparr>]"
      "yeetLockCount s' = yeetLockCount s"
    by (auto split: if_splits)
  have ids: "map lockId (yeetMutex s') = map lockId ?q"
    unfolding s' by (simp add: map_update list_update_same_conv k(1))
  have "\<forall>j<length (yeetMutex s'). requestState (yeetMutex s' ! j) \<noteq> Waiting
          \<longrightarrow> (\<forall>i<j. settled (yeetMutex s' ! i))"
  proof (intro allI impI)
    fix j i
    assume j: "j < length (yeetMutex s')" "requestState (yeetMutex s' ! j) \<noteq> Waiting" and i: "i < j"
    have jl: "j < length ?q" using j(1) by (simp add: s')
    have "requestState (?q ! j) \<noteq> Waiting" using j(2) jl k(2) by (cases "j = k") (auto simp: s')
    then have "settled (?q ! i)" using inv jl i unfolding chainInvariant_def by blast
    then show "settled (yeetMutex s' ! i)" using jl i k(1)
      by (cases "i = k") (auto simp: s' settled_def)
  qed
  then show ?thesis using inv ids s'(2) by (simp add: chainInvariant_def)
qed

lemma run_invariant: "chainInvariant s \<Longrightarrow> run steps s = Some s' \<Longrightarrow> chainInvariant s'"
  by (induction steps arbitrary: s) (auto split: option.splits dest: step_invariant)

lemma filter_at_most_one:
  assumes "\<And>i j. i < j \<Longrightarrow> j < length xs \<Longrightarrow> P (xs ! j) \<Longrightarrow> \<not> P (xs ! i)"
  shows "length (filter P xs) \<le> 1"
  using assms
proof (induction xs rule: rev_induct)
  case Nil
  then show ?case by simp
next
  case (snoc x xs)
  have IH: "length (filter P xs) \<le> 1"
  proof (rule snoc.IH)
    fix i j assume "i < j" "j < length xs" "P (xs ! j)"
    then show "\<not> P (xs ! i)" using snoc.prems [of i j] by (simp add: nth_append)
  qed
  show ?case
  proof (cases "P x")
    case False
    then show ?thesis using IH by simp
  next
    case True
    have "\<not> P (xs ! i)" if "i < length xs" for i
      using snoc.prems [of i "length xs"] that True by (simp add: nth_append)
    then have "filter P xs = []" by (auto simp: filter_empty_conv in_set_conv_nth)
    then show ?thesis using True by simp
  qed
qed

lemma invariant_single_flight:
  assumes "chainInvariant s"
  shows "length (executing s) \<le> 1"
  unfolding executing_def
proof (rule filter_at_most_one)
  fix i j assume "i < j" "j < length (yeetMutex s)" "requestState (yeetMutex s ! j) = Executing"
  then have "settled (yeetMutex s ! i)" using assms unfolding chainInvariant_def by auto
  then show "requestState (yeetMutex s ! i) \<noteq> Executing" by (auto simp: settled_def)
qed


text \<open>
  C2 (serialized execution).  In every state \<open>s\<close> reached from a fresh runner by any
  sequence of submissions, callback starts and completions:
  a further submission is always accepted and receives the token \<open>yeetLockCount\<close> after
  the increment, strictly larger than the token of every earlier submission;
  a callback whose turn arrives starts \<open>executeYeetInternal\<close> exactly when its token
  still equals \<open>yeetLockCount\<close>, and is otherwise discarded as superseded, no other
  request being touched;
  no step changes a request that is settled (superseded or executed), so a discarded
  request never executes;
  and at most one request is executing.
\<close>

theorem execution_serialized:
  assumes "run steps BotRunner_new = Some s"
  shows "(\<forall>d. \<exists>s'. step (ExecuteYeet d) s = Some s'
            \<and> lockId (last (yeetMutex s')) = yeetLockCount s'
            \<and> (\<forall>r\<in>set (yeetMutex s). lockId r < lockId (last (yeetMutex s'))))
       \<and> (\<forall>k s'. step (StartCallback k) s = Some s' \<longrightarrow>
             requestState (yeetMutex s' ! k)
               = (if lockId (yeetMutex s ! k) = yeetLockCount s then Executing else Superseded)
             \<and> (\<forall>i<length (yeetMutex s). i \<noteq> k \<longrightarrow> yeetMutex s' ! i = yeetMutex s ! i))
       \<and> (\<forall>e s' i. step e s = Some s' \<longrightarrow> i < length (yeetMutex s)
             \<longrightarrow> settled (yeetMutex s ! i) \<longrightarrow> yeetMutex s' ! i = yeetMutex s ! i)
       \<and> length (executing s) \<le> 1"
proof -
  have inv: "chainInvariant s"
    using run_invariant [OF chainInvariant_new assms] .
  have tokens: "lockId r \<le> yeetLockCount s" if "r \<in> set (yeetMutex s)" for r
  proof -
    from that obtain k where k: "k < length (yeetMutex s)" "r = yeetMutex s ! k"
      by (auto simp: in_set_conv_nth)
    then show ?thesis
      using chainInvariant_lockId [OF inv k(1)] chainInvariant_length [OF inv] by simp
  qed
  have 1: "\<forall>d. \<exists>s'. step (ExecuteYeet d) s = Some s'
            \<and> lockId (last (yeetMutex s')) = yeetLockCount s'
            \<and> (\<forall>r\<in>set (yeetMutex s). lockId r < lockId (last (yeetMutex s')))"
    using tokens by (auto simp: Let_def less_Suc_eq_le)
  have 2: "\<forall>k s'. step (StartCallback k) s = Some s' \<longrightarrow>
             requestState (yeetMutex s' ! k)
               = (if lockId (yeetMutex s ! k) = yeetLockCount s then Executing else Superseded)
             \<and> (\<forall>i<length (yeetMutex s). i \<noteq> k \<longrightarrow> yeetMutex s' ! i = yeetMutex s ! i)"
    by (auto split: if_splits)
  have 3: "\<forall>e s' i. step e s = Some s' \<longrightarrow> i < length (yeetMutex s)
             \<longrightarrow> settled (yeetMutex s ! i) \<longrightarrow> yeetMutex s' ! i = yeetMutex s ! i"
  proof (intro allI impI)
    fix e s' i
    assume st: "step e s = Some s'" and i: "i < length (yeetMutex s)"
      and stl: "settled (yeetMutex s ! i)"
    show "yeetMutex s' ! i = yeetMutex s ! i"
    proof (cases e)
      case (ExecuteYeet d)
      then show ?thesis using st i by (auto simp: Let_def nth_append)
    next
      case (StartCallback k)
      then have "requestState (yeetMutex s ! k) = Waiting" using st by (auto split: if_splits)
      then have "i \<noteq> k" using stl by (auto simp: settled_def)
      then show ?thesis using st StartCallback by (auto split: if_splits)
    next
      case (FinishInternal k)
      then have "requestState (yeetMutex s ! k) = Executing" using st by (auto split: if_splits)
      then have "i \<noteq> k" using stl by (auto simp: settled_def)
      then show ?thesis using st FinishInternal by (auto split: if_splits)
    qed
  qed
  show ?thesis using 1 2 3 invariant_single_flight [OF inv] by blast
qed

text \<open>
  Two submissions, then their callbacks: the first is superseded by the second, which
  executes; a third submission arrives meanwhile and must wait, its callback cannot start.
\<close>

theorem execution_serialized_witness:
  "run sampleSteps BotRunner_new = Some sampleState
   \<and> length (executing sampleState) \<le> 1
   \<and> step (StartCallback 2) sampleState = None"
proof (intro conjI)
  show r: "run sampleSteps BotRunner_new = Some sampleState"
    by (simp add: sampleSteps_def BotRunner_new_def sampleState_def settled_def Let_def)
  show "length (executing sampleState) \<le> 1"
    by (rule execution_serialized [OF r, THEN conjunct2, THEN conjunct2, THEN conjunct2])
  show "step (StartCallback 2) sampleState = None"
    by (simp add: sampleState_def settled_def)
qed

end
